theory Spec2Isabelle
  imports Complex_Main
begin

section \<open>Python exceptions\<close>

text \<open>
  Every \<^verbatim>\<open>raise\<close> of the modelled code is a value: a function that can raise returns
  a sum whose left injection carries the exception. \<open>JSONDecodeError\<close> is the one class
  that \<^verbatim>\<open>load_group_results\<close> catches; \<open>Exception\<close> stands for any other class that
  a method of the base object may raise.
\<close>

datatype exn =
    IndexError
  | ValueError
  | AttributeError
  | JSONDecodeError
  | OSError
  | Exception string

section \<open>numpy's float64 arithmetic\<close>

text \<open>
  \<^verbatim>\<open>funcs.py\<close> computes with numpy arrays of float64. An array element is modelled
  as a real number or one of the three special values of IEEE arithmetic. The model is
  exact on the finite values: rounding, overflow to infinity, underflow and the sign of
  zero are left out. With numpy's default error state an invalid operation or a division
  by zero on float64 gives a warning and a special value, never an exception, so every
  operation below is a total function.

  The model covers arrays of float64 and float parameters, which is what the fitting
  code passes. Arrays of integers are outside it: numpy raises ValueError for an array
  of integers to a negative integer power, and integer powers wrap around.
\<close>

datatype npfloat = Fin real | PInf | NInf | NaN

fun np_neg :: "npfloat \<Rightarrow> npfloat" where
  "np_neg (Fin r) = Fin (- r)"
| "np_neg PInf = NInf"
| "np_neg NInf = PInf"
| "np_neg NaN = NaN"

fun np_add :: "npfloat \<Rightarrow> npfloat \<Rightarrow> npfloat" where
  "np_add NaN _ = NaN"
| "np_add _ NaN = NaN"
| "np_add (Fin a) (Fin b) = Fin (a + b)"
| "np_add PInf NInf = NaN"
| "np_add NInf PInf = NaN"
| "np_add PInf _ = PInf"
| "np_add _ PInf = PInf"
| "np_add NInf _ = NInf"
| "np_add _ NInf = NInf"

definition np_sub :: "npfloat \<Rightarrow> npfloat \<Rightarrow> npfloat" where
  "np_sub x y = np_add x (np_neg y)"

text \<open>The sign of a product or quotient with an infinite operand.\<close>

definition signed_inf :: "bool \<Rightarrow> npfloat" where
  "signed_inf positive = (if positive then PInf else NInf)"

fun np_mul :: "npfloat \<Rightarrow> npfloat \<Rightarrow> npfloat" where
  "np_mul NaN _ = NaN"
| "np_mul _ NaN = NaN"
| "np_mul (Fin a) (Fin b) = Fin (a * b)"
| "np_mul (Fin a) PInf = (if a = 0 then NaN else signed_inf (0 < a))"
| "np_mul (Fin a) NInf = (if a = 0 then NaN else signed_inf (a < 0))"
| "np_mul PInf (Fin b) = (if b = 0 then NaN else signed_inf (0 < b))"
| "np_mul NInf (Fin b) = (if b = 0 then NaN else signed_inf (b < 0))"
| "np_mul PInf PInf = PInf"
| "np_mul NInf NInf = PInf"
| "np_mul PInf NInf = NInf"
| "np_mul NInf PInf = NInf"

text \<open>
  Division: a finite non-zero value over zero is an infinity, zero over zero and an
  infinity over an infinity are NaN. The model's zero is the positive zero (in
  \<^verbatim>\<open>gaussian_function\<close> the only divisor is \<^verbatim>\<open>2*wid**2\<close>, which is never negative).
\<close>

fun np_div :: "npfloat \<Rightarrow> npfloat \<Rightarrow> npfloat" where
  "np_div NaN _ = NaN"
| "np_div _ NaN = NaN"
| "np_div (Fin a) (Fin b) =
     (if b \<noteq> 0 then Fin (a / b) else if a = 0 then NaN else signed_inf (0 < a))"
| "np_div (Fin a) PInf = Fin 0"
| "np_div (Fin a) NInf = Fin 0"
| "np_div PInf (Fin b) = signed_inf (0 \<le> b)"
| "np_div NInf (Fin b) = signed_inf (b < 0)"
| "np_div PInf PInf = NaN"
| "np_div PInf NInf = NaN"
| "np_div NInf PInf = NaN"
| "np_div NInf NInf = NaN"

fun np_exp :: "npfloat \<Rightarrow> npfloat" where
  "np_exp (Fin r) = Fin (exp r)"
| "np_exp PInf = PInf"
| "np_exp NInf = Fin 0"
| "np_exp NaN = NaN"

text \<open>
  \<^verbatim>\<open>np.log10\<close>: the logarithm of zero is minus infinity and the logarithm of a negative
  number is NaN (each with a RuntimeWarning); nothing is raised.
\<close>

fun np_log10 :: "npfloat \<Rightarrow> npfloat" where
  "np_log10 (Fin r) = (if 0 < r then Fin (log 10 r) else if r = 0 then NInf else NaN)"
| "np_log10 PInf = PInf"
| "np_log10 NInf = NaN"
| "np_log10 NaN = NaN"

text \<open>
  \<^verbatim>\<open>x ** y\<close> on float64 is C's \<^verbatim>\<open>pow\<close>: anything to the power zero is one, one to any
  power is one, a negative base has a real power only for an integral exponent.
\<close>

definition odd_integer :: "real \<Rightarrow> bool" where
  "odd_integer y = (y \<in> \<int> \<and> odd \<lfloor>y\<rfloor>)"

fun pow_finite :: "real \<Rightarrow> real \<Rightarrow> npfloat" where
  "pow_finite x y =
     (if 0 < x then Fin (x powr y)
      else if x = 0 then (if 0 < y then Fin 0 else PInf)
      else if y \<in> \<int> then Fin ((if odd \<lfloor>y\<rfloor> then - 1 else 1) * (\<bar>x\<bar> powr y))
      else NaN)"

fun pow_inf_exponent :: "npfloat \<Rightarrow> bool \<Rightarrow> npfloat" where
  "pow_inf_exponent (Fin x) positive =
     (if \<bar>x\<bar> = 1 then Fin 1
      else if (\<bar>x\<bar> < 1) = positive then Fin 0 else PInf)"
| "pow_inf_exponent _ positive = (if positive then PInf else Fin 0)"

fun np_power :: "npfloat \<Rightarrow> npfloat \<Rightarrow> npfloat" where
  "np_power x y =
     (if y = Fin 0 \<or> x = Fin 1 then Fin 1
      else case (x, y) of
        (NaN, _) \<Rightarrow> NaN
      | (_, NaN) \<Rightarrow> NaN
      | (_, PInf) \<Rightarrow> pow_inf_exponent x True
      | (_, NInf) \<Rightarrow> pow_inf_exponent x False
      | (Fin a, Fin b) \<Rightarrow> pow_finite a b
      | (PInf, Fin b) \<Rightarrow> (if 0 < b then PInf else Fin 0)
      | (NInf, Fin b) \<Rightarrow>
          (if 0 < b then (if odd_integer b then NInf else PInf) else Fin 0))"

section \<open>funcs.py\<close>

subsection \<open>loglorentzian_function\<close>

text \<open>
  \<^verbatim>\<open>a, b, c = params\<close> raises ValueError unless there are exactly three parameters. The
  \<^verbatim>\<open>np.zeros_like(x)\<close> assigned first is overwritten. The scalars \<open>a\<close>, \<open>b\<close>, \<open>c\<close> are
  broadcast over the array \<open>x\<close>. The array \<open>x\<close> is an array of float64 and the parameters
  are floats.
\<close>

fun loglorentzian_function :: "npfloat list \<Rightarrow> npfloat list \<Rightarrow> exn + npfloat list" where
  "loglorentzian_function x [a, b, c] =
     Inr (map (\<lambda>xi. np_sub (np_log10 a) (np_log10 (np_add b (np_power xi c)))) x)"
| "loglorentzian_function x params = Inl ValueError"

subsection \<open>gaussian_function\<close>

text \<open>
  \<^verbatim>\<open>range(0, len(params), 3)\<close> and the loop over it. \<^verbatim>\<open>params[i]\<close> is in range for
  every index of the range; \<^verbatim>\<open>params[i+1]\<close> and \<^verbatim>\<open>params[i+2]\<close> raise IndexError when
  the last group is short. In \<^verbatim>\<open>-(x-ctr)**2 / (2*wid**2)\<close> the power binds tighter than
  the unary minus, and the minus tighter than the division.
\<close>

definition py_range3 :: "nat \<Rightarrow> nat list" where
  "py_range3 n = map (\<lambda>k. 3 * k) [0..<(n + 2) div 3]"

fun gaussian_loop ::
  "npfloat list \<Rightarrow> npfloat list \<Rightarrow> nat list \<Rightarrow> npfloat list \<Rightarrow> exn + npfloat list" where
  "gaussian_loop x params [] y = Inr y"
| "gaussian_loop x params (i # idxs) y =
     (if i + 2 < length params then
        let ctr = params ! i; amp = params ! (i + 1); wid = params ! (i + 2) in
        gaussian_loop x params idxs
          (map2 np_add y
             (map (\<lambda>xi. np_mul amp
                     (np_exp (np_div (np_neg (np_power (np_sub xi ctr) (Fin 2)))
                                     (np_mul (Fin 2) (np_power wid (Fin 2)))))) x))
      else Inl IndexError)"

definition gaussian_function :: "npfloat list \<Rightarrow> npfloat list \<Rightarrow> exn + npfloat list" where
  "gaussian_function x params =
     gaussian_loop x params (py_range3 (length params)) (replicate (length x) (Fin 0))"

text \<open>
  The parameter list made of consecutive triples (center, amplitude, width), and the
  sum the specification describes: one Gaussian per triple, added up for each element
  of \<open>x\<close>.
\<close>

fun flatten_triples :: "('a \<times> 'a \<times> 'a) list \<Rightarrow> 'a list" where
  "flatten_triples [] = []"
| "flatten_triples ((ctr, amp, wid) # ts) = ctr # amp # wid # flatten_triples ts"

fun gaussian_term :: "npfloat \<Rightarrow> npfloat \<times> npfloat \<times> npfloat \<Rightarrow> npfloat" where
  "gaussian_term xi (ctr, amp, wid) =
     np_mul amp (np_exp (np_div (np_neg (np_power (np_sub xi ctr) (Fin 2)))
                                (np_mul (Fin 2) (np_power wid (Fin 2)))))"

definition np_sum :: "npfloat list \<Rightarrow> npfloat" where
  "np_sum vs = foldr np_add vs (Fin 0)"

fun real_gaussian :: "real \<Rightarrow> real \<times> real \<times> real \<Rightarrow> real" where
  "real_gaussian xi (ctr, amp, wid) = amp * exp (- (xi - ctr)\<^sup>2 / (2 * wid\<^sup>2))"

fun fin_triple :: "real \<times> real \<times> real \<Rightarrow> npfloat \<times> npfloat \<times> npfloat" where
  "fin_triple (ctr, amp, wid) = (Fin ctr, Fin amp, Fin wid)"

text \<open>
  One pass of the loop body of \<^verbatim>\<open>gaussian_function\<close>: the Gaussian of one triple is
  added to \<open>y\<close>.
\<close>

definition add_term ::
  "npfloat list \<Rightarrow> npfloat \<times> npfloat \<times> npfloat \<Rightarrow> npfloat list \<Rightarrow> npfloat list" where
  "add_term x t y = map2 np_add y (map (\<lambda>xi. gaussian_term xi t) x)"

text \<open>
  A value is finite when it is a real number; it is non-positive when its logarithm is
  not defined: a real number that is at most zero, or minus infinity.
\<close>

fun is_finite :: "npfloat \<Rightarrow> bool" where
  "is_finite (Fin r) = True"
| "is_finite v = False"

fun nonpositive :: "npfloat \<Rightarrow> bool" where
  "nonpositive (Fin r) = (r \<le> 0)"
| "nonpositive NInf = True"
| "nonpositive v = False"

section \<open>group.py\<close>

subsection \<open>Arrays and Fit Results\<close>

text \<open>
  A numpy array of one or two dimensions. A two-dimensional array carries its number
  of columns, so that an array with no row still has a shape such as \<open>(0, 3)\<close>. The
  elements are of any type \<open>'a\<close>: \<^verbatim>\<open>group.py\<close> moves them and never computes with them.
\<close>

datatype 'a ndarray = Arr1 "'a list" | Arr2 nat "'a list list"

fun shape :: "'a ndarray \<Rightarrow> nat list" where
  "shape (Arr1 xs) = [length xs]"
| "shape (Arr2 ncols rows) = [length rows, ncols]"

fun ndim :: "'a ndarray \<Rightarrow> nat" where
  "ndim arr = length (shape arr)"

text \<open>
  Modelled from the spec: the Fit Result. \<^verbatim>\<open>FOOOFResult\<close> is declared in the base
  module, which is not part of the sources; its four fields are the ones that
  \<^verbatim>\<open>group.py\<close> reads by name: the background parameters, the peak parameters (one row
  per peak), r squared and the error.
\<close>

record 'a FOOOFResult =
  background_params :: "'a ndarray"
  oscillations_params :: "'a ndarray"
  r2 :: 'a
  error :: 'a

text \<open>The value of an attribute of a Fit Result: a float or an array.\<close>

datatype 'a pyval = Scalar 'a | Array "'a ndarray"

definition getattr :: "'a FOOOFResult \<Rightarrow> string \<Rightarrow> exn + 'a pyval" where
  "getattr dat name =
     (if name = ''background_params'' then Inr (Array (background_params dat))
      else if name = ''oscillations_params'' then Inr (Array (oscillations_params dat))
      else if name = ''r2'' then Inr (Scalar (r2 dat))
      else if name = ''error'' then Inr (Scalar (error dat))
      else Inl AttributeError)"

text \<open>
  The list comprehension \<^verbatim>\<open>[getattr(dat, name) for dat in self.group_results]\<close>: the
  first attribute that is missing raises.
\<close>

fun getattr_each :: "'a FOOOFResult list \<Rightarrow> string \<Rightarrow> exn + 'a pyval list" where
  "getattr_each [] name = Inr []"
| "getattr_each (dat # dats) name =
     (case getattr dat name of
        Inl e \<Rightarrow> Inl e
      | Inr v \<Rightarrow> (case getattr_each dats name of Inl e \<Rightarrow> Inl e | Inr vs \<Rightarrow> Inr (v # vs)))"

subsection \<open>The numpy functions of get_all_data\<close>

text \<open>
  \<^verbatim>\<open>np.array\<close> of a list: floats give a one-dimensional array (the empty list an empty
  one); arrays of one shape are stacked; a list that mixes floats and arrays raises
  ValueError. What a list of arrays of different shapes gives depends on the release of
  numpy, and the sources do not say which release the code runs on, so the release is a
  parameter of the model:
  \<^item> before numpy 1.24, arrays whose first dimensions differ give an array of objects
    that holds them as they are, and arrays that agree on the first dimension and
    differ later raise ValueError;
  \<^item> since numpy 1.24, arrays of different shapes raise ValueError.
  Iterating over a stacked array or over an array of objects gives the arrays of the
  list again, so both are the constructor \<open>Arrs\<close>.
\<close>

datatype numpy_release = Before_1_24 | Since_1_24

datatype 'a collected = Vec "'a list" | Arrs "'a ndarray list"

fun scalar_of :: "'a pyval \<Rightarrow> 'a option" where
  "scalar_of (Scalar v) = Some v"
| "scalar_of (Array arr) = None"

fun array_of :: "'a pyval \<Rightarrow> 'a ndarray option" where
  "array_of (Scalar v) = None"
| "array_of (Array arr) = Some arr"

fun np_array_accepts :: "numpy_release \<Rightarrow> 'a ndarray list \<Rightarrow> bool" where
  "np_array_accepts np [] = True"
| "np_array_accepts np (arr # arrs) =
     (list_all (\<lambda>other. shape other = shape arr) arrs
      \<or> (np = Before_1_24
          \<and> \<not> list_all (\<lambda>other. hd (shape other) = hd (shape arr)) arrs))"

definition np_array :: "numpy_release \<Rightarrow> 'a pyval list \<Rightarrow> exn + 'a collected" where
  "np_array np vs =
     (case those (map scalar_of vs) of
        Some xs \<Rightarrow> Inr (Vec xs)
      | None \<Rightarrow>
          (case those (map array_of vs) of
             None \<Rightarrow> Inl ValueError
           | Some arrs \<Rightarrow> if np_array_accepts np arrs then Inr (Arrs arrs) else Inl ValueError))"

text \<open>\<^verbatim>\<open>arr.reshape(1, len(arr)) if arr.ndim == 1 else arr\<close>.\<close>

fun as_rows :: "'a ndarray \<Rightarrow> 'a ndarray" where
  "as_rows (Arr1 xs) = Arr2 (length xs) [xs]"
| "as_rows (Arr2 ncols rows) = Arr2 ncols rows"

fun elems :: "'a ndarray \<Rightarrow> 'a list" where
  "elems (Arr1 xs) = xs"
| "elems (Arr2 ncols rows) = concat rows"

fun rows_of :: "'a ndarray \<Rightarrow> 'a list list" where
  "rows_of (Arr1 xs) = [xs]"
| "rows_of (Arr2 ncols rows) = rows"

text \<open>
  \<^verbatim>\<open>np.concatenate(arrays, 0)\<close>: the arrays must have the same number of dimensions and
  the same shape after the first dimension, and there must be one at least.
\<close>

fun np_concatenate :: "'a ndarray list \<Rightarrow> exn + 'a ndarray" where
  "np_concatenate [] = Inl ValueError"
| "np_concatenate (Arr1 xs # arrs) =
     (if list_all (\<lambda>other. ndim other = 1) arrs
      then Inr (Arr1 (concat (map elems (Arr1 xs # arrs)))) else Inl ValueError)"
| "np_concatenate (Arr2 ncols rows # arrs) =
     (if list_all (\<lambda>other. tl (shape other) = [ncols]) arrs
      then Inr (Arr2 ncols (concat (map rows_of (Arr2 ncols rows # arrs)))) else Inl ValueError)"

text \<open>
  \<^verbatim>\<open>out[:, ind]\<close>: a one-dimensional array has no second index; a negative index counts
  from the last column.
\<close>

fun select_column :: "'a ndarray \<Rightarrow> int \<Rightarrow> exn + 'a ndarray" where
  "select_column (Arr1 xs) ind = Inl IndexError"
| "select_column (Arr2 ncols rows) ind =
     (let j = (if ind < 0 then ind + int ncols else ind)
      in if 0 \<le> j \<and> j < int ncols then Inr (Arr1 (map (\<lambda>row. row ! nat j) rows))
         else Inl IndexError)"

subsection \<open>The group object and the base class\<close>

text \<open>
  A \<^verbatim>\<open>FOOOFGroup\<close> object: the attributes it inherits from \<^verbatim>\<open>FOOOF\<close> (settings, data
  and results of the last fit; of any type \<open>'st\<close>) and the list \<^verbatim>\<open>group_results\<close>.
\<close>

record ('st, 'a) FOOOFGroup =
  fooof :: 'st
  group_results :: "'a FOOOFResult list"

text \<open>
  Modelled from the spec: the methods of the base class \<^verbatim>\<open>FOOOF\<close> that \<^verbatim>\<open>group.py\<close>
  calls, and the two operations on files. The base class is not part of the sources, so
  its methods are parameters of the model, and nothing is assumed about them but their
  signatures:
  \<^item> \<open>fit\<close> takes the frequencies, one spectrum and the optional frequency range; it
    returns the object's new state or raises, leaving the object in some state;
  \<^item> \<open>get_results\<close> reads the Fit Result off the object;
  \<^item> \<open>save\<close> writes the object to an open file (the flag is \<^verbatim>\<open>save_results\<close>) and
    \<open>load\<close> reads the next record of an open file into the object; both act on the
    file system \<open>'w\<close> and may raise;
  \<^item> \<open>reset_dat\<close> is \<^verbatim>\<open>_reset_dat\<close>, with its flag;
  \<^item> \<open>py_open\<close> is the builtin \<^verbatim>\<open>open(path, mode)\<close>, \<open>py_close\<close> the method \<^verbatim>\<open>close\<close> of the
    file object \<open>'fh\<close>.
  The methods of the base class act on the inherited attributes: none of them reads or
  writes \<^verbatim>\<open>group_results\<close>, which the base class does not know.
\<close>

record ('st, 'a, 'fh, 'w) env =
  fit :: "'st \<Rightarrow> 'a list \<Rightarrow> 'a list \<Rightarrow> ('a \<times> 'a) option \<Rightarrow> (exn \<times> 'st) + 'st"
  get_results :: "'st \<Rightarrow> 'a FOOOFResult"
  save :: "'st \<Rightarrow> 'fh \<Rightarrow> bool \<Rightarrow> 'w \<Rightarrow> (exn \<times> 'w) + 'w"
  load :: "'st \<Rightarrow> 'fh \<Rightarrow> 'w \<Rightarrow> (exn \<times> 'st \<times> 'w) + ('st \<times> 'w)"
  reset_dat :: "'st \<Rightarrow> bool \<Rightarrow> 'st"
  py_open :: "string \<Rightarrow> string \<Rightarrow> 'w \<Rightarrow> exn + ('fh \<times> 'w)"
  py_close :: "'fh \<Rightarrow> 'w \<Rightarrow> 'w"

text \<open>
  A method of the group object either returns, with the object and the file system as
  it leaves them, or raises, with the exception and the object and the file system as
  they are at that moment.
\<close>

type_synonym ('st, 'a, 'w) outcome =
  "(exn \<times> ('st, 'a) FOOOFGroup \<times> 'w) + (('st, 'a) FOOOFGroup \<times> 'w)"

text \<open>\<^verbatim>\<open>os.path.join\<close> of two components (posixpath).\<close>

definition os_path_join :: "string \<Rightarrow> string \<Rightarrow> string" where
  "os_path_join a b =
     (if b \<noteq> [] \<and> hd b = CHR ''/'' then b
      else if a = [] \<or> last a = CHR ''/'' then a @ b
      else a @ ''/'' @ b)"

subsection \<open>_reset_group_results, get_group_results\<close>

definition reset_group_results :: "('st, 'a) FOOOFGroup \<Rightarrow> ('st, 'a) FOOOFGroup" where
  "reset_group_results self = self\<lparr>group_results := []\<rparr>"

definition get_group_results :: "('st, 'a) FOOOFGroup \<Rightarrow> 'a FOOOFResult list" where
  "get_group_results self = group_results self"

subsection \<open>fit_group\<close>

text \<open>
  The loop \<^verbatim>\<open>for psd in psds\<close>: fit, append the result, save it when saving. \<open>f_obj\<close> is
  \<open>None\<close> when \<^verbatim>\<open>save_dat\<close> is false. An exception of \<open>fit\<close> or of \<open>save\<close> leaves the loop
  at once: the code has no handler.
\<close>

fun fit_loop ::
  "('st, 'a, 'fh, 'w) env \<Rightarrow> 'a list \<Rightarrow> ('a \<times> 'a) option \<Rightarrow> 'fh option \<Rightarrow> 'a list list \<Rightarrow>
   ('st, 'a) FOOOFGroup \<Rightarrow> 'w \<Rightarrow> ('st, 'a, 'w) outcome" where
  "fit_loop E freqs freq_range f_obj [] self w = Inr (self, w)"
| "fit_loop E freqs freq_range f_obj (psd # psds) self w =
     (case fit E (fooof self) freqs psd freq_range of
        Inl (e, st) \<Rightarrow> Inl (e, self\<lparr>fooof := st\<rparr>, w)
      | Inr st \<Rightarrow>
          (let self1 = self\<lparr>fooof := st\<rparr>;
               self2 = self1\<lparr>group_results :=
                               group_results self1 @ [get_results E (fooof self1)]\<rparr>
           in case f_obj of
                None \<Rightarrow> fit_loop E freqs freq_range f_obj psds self2 w
              | Some f \<Rightarrow>
                  (case save E (fooof self2) f True w of
                     Inl (e, w') \<Rightarrow> Inl (e, self2, w')
                   | Inr w' \<Rightarrow> fit_loop E freqs freq_range f_obj psds self2 w')))"

text \<open>\<^verbatim>\<open>if save_dat: f_obj = open(os.path.join(file_path, file_name + '.json'), 'w')\<close>.\<close>

definition open_if_saving ::
  "('st, 'a, 'fh, 'w) env \<Rightarrow> bool \<Rightarrow> string \<Rightarrow> string \<Rightarrow> 'w \<Rightarrow> exn + ('fh option \<times> 'w)" where
  "open_if_saving E save_dat file_name file_path w =
     (if save_dat then
        (case py_open E (os_path_join file_path (file_name @ ''.json'')) ''w'' w of
           Inl e \<Rightarrow> Inl e
         | Inr (f, w') \<Rightarrow> Inr (Some f, w'))
      else Inr (None, w))"

definition fit_group ::
  "('st, 'a, 'fh, 'w) env \<Rightarrow> ('st, 'a) FOOOFGroup \<Rightarrow> 'w \<Rightarrow> 'a list \<Rightarrow> 'a list list \<Rightarrow>
   ('a \<times> 'a) option \<Rightarrow> bool \<Rightarrow> string \<Rightarrow> string \<Rightarrow> ('st, 'a, 'w) outcome" where
  "fit_group E self w freqs psds freq_range save_dat file_name file_path =
     (let self0 = reset_group_results self in
      case open_if_saving E save_dat file_name file_path w of
        Inl e \<Rightarrow> Inl (e, self0, w)
      | Inr (f_obj, w0) \<Rightarrow>
          (case fit_loop E freqs freq_range f_obj psds self0 w0 of
             Inl raised \<Rightarrow> Inl raised
           | Inr (self1, w1) \<Rightarrow>
               Inr (self1\<lparr>fooof := reset_dat E (fooof self1) False\<rparr>,
                    case f_obj of None \<Rightarrow> w1 | Some f \<Rightarrow> py_close E f w1)))"

subsection \<open>get_all_data\<close>

text \<open>
  \<^verbatim>\<open>out[0]\<close> raises IndexError on an empty array. When the first element is an array,
  every element is turned into rows and the rows are concatenated. The first argument
  of \<open>get_all_data\<close> is the release of numpy that the code runs on.
\<close>

fun concatenate_if_arrays :: "'a collected \<Rightarrow> exn + 'a ndarray" where
  "concatenate_if_arrays (Vec []) = Inl IndexError"
| "concatenate_if_arrays (Vec xs) = Inr (Arr1 xs)"
| "concatenate_if_arrays (Arrs []) = Inl IndexError"
| "concatenate_if_arrays (Arrs arrs) = np_concatenate (map as_rows arrs)"

definition get_all_data ::
  "numpy_release \<Rightarrow> ('st, 'a) FOOOFGroup \<Rightarrow> string \<Rightarrow> int option \<Rightarrow> exn + 'a ndarray" where
  "get_all_data np self name ind =
     (case getattr_each (group_results self) name of
        Inl e \<Rightarrow> Inl e
      | Inr vs \<Rightarrow>
          (case np_array np vs of
             Inl e \<Rightarrow> Inl e
           | Inr collected \<Rightarrow>
               (case concatenate_if_arrays collected of
                  Inl e \<Rightarrow> Inl e
                | Inr out \<Rightarrow>
                    (case ind of None \<Rightarrow> Inr out | Some i \<Rightarrow> select_column out i))))"

subsection \<open>load_group_results\<close>

text \<open>
  The loop \<^verbatim>\<open>while True\<close>: it ends when \<open>load\<close> raises. A JSONDecodeError is caught and
  ends the loop normally; any other exception leaves it. A \<open>load\<close> that never raises
  keeps the loop running for ever: the result is then \<open>None\<close>.
\<close>

partial_function (option) load_loop ::
  "('st, 'a, 'fh, 'w) env \<Rightarrow> 'fh \<Rightarrow> ('st, 'a) FOOOFGroup \<Rightarrow> 'w \<Rightarrow>
   ('st, 'a, 'w) outcome option" where
  "load_loop E f_obj self w =
     (case load E (fooof self) f_obj w of
        Inl (e, st, w') \<Rightarrow>
          (if e = JSONDecodeError then Some (Inr (self\<lparr>fooof := st\<rparr>, w'))
           else Some (Inl (e, self\<lparr>fooof := st\<rparr>, w')))
      | Inr (st, w') \<Rightarrow>
          load_loop E f_obj
            (self\<lparr>fooof := st, group_results := group_results self @ [get_results E st]\<rparr>) w')"

text \<open>
  The \<^verbatim>\<open>with\<close> statement closes the file on the way out, also when an exception leaves
  the loop; \<^verbatim>\<open>_reset_dat(False)\<close> runs only after a normal end.
\<close>

definition load_group_results ::
  "('st, 'a, 'fh, 'w) env \<Rightarrow> ('st, 'a) FOOOFGroup \<Rightarrow> 'w \<Rightarrow> string \<Rightarrow> string \<Rightarrow>
   ('st, 'a, 'w) outcome option" where
  "load_group_results E self w file_name file_path =
     (let self0 = reset_group_results self in
      case py_open E (os_path_join file_path (file_name @ ''.json'')) ''r'' w of
        Inl e \<Rightarrow> Some (Inl (e, self0, w))
      | Inr (f_obj, w0) \<Rightarrow>
          (case load_loop E f_obj self0 w0 of
             None \<Rightarrow> None
           | Some (Inl (e, self1, w1)) \<Rightarrow> Some (Inl (e, self1, py_close E f_obj w1))
           | Some (Inr (self1, w1)) \<Rightarrow>
               Some (Inr (self1\<lparr>fooof := reset_dat E (fooof self1) False\<rparr>,
                          py_close E f_obj w1))))"

section \<open>Notions the properties are stated with\<close>

text \<open>
  The spectra of a batch are fit one after the other on the same object. \<open>fit_states\<close>
  lists the states of the object after each fit, up to the first fit that raises;
  \<open>fit_results\<close> lists the Fit Results read off these states: the Fit Results of the
  spectra fit successfully, in input order. All the fits of a batch succeed when
  \<open>fit_states\<close> is as long as the batch. \<open>state_after\<close> is the state the fits leave.
\<close>

fun fit_states ::
  "('st, 'a, 'fh, 'w) env \<Rightarrow> 'st \<Rightarrow> 'a list \<Rightarrow> ('a \<times> 'a) option \<Rightarrow> 'a list list \<Rightarrow> 'st list" where
  "fit_states E st freqs freq_range [] = []"
| "fit_states E st freqs freq_range (psd # psds) =
     (case fit E st freqs psd freq_range of
        Inl raised \<Rightarrow> []
      | Inr st' \<Rightarrow> st' # fit_states E st' freqs freq_range psds)"

definition fit_results ::
  "('st, 'a, 'fh, 'w) env \<Rightarrow> 'st \<Rightarrow> 'a list \<Rightarrow> ('a \<times> 'a) option \<Rightarrow> 'a list list \<Rightarrow>
   'a FOOOFResult list" where
  "fit_results E st freqs freq_range psds =
     map (get_results E) (fit_states E st freqs freq_range psds)"

definition state_after ::
  "('st, 'a, 'fh, 'w) env \<Rightarrow> 'st \<Rightarrow> 'a list \<Rightarrow> ('a \<times> 'a) option \<Rightarrow> 'a list list \<Rightarrow> 'st" where
  "state_after E st freqs freq_range psds = last (st # fit_states E st freqs freq_range psds)"

text \<open>
  \<open>loaded E f_obj k st w = Some (rs, st', w')\<close>: the next \<open>k\<close> records of the open file
  load without any exception; \<open>rs\<close> are their Fit Results in file order, \<open>st'\<close> and \<open>w'\<close>
  the object and the file system after the last of them.
\<close>

fun loaded ::
  "('st, 'a, 'fh, 'w) env \<Rightarrow> 'fh \<Rightarrow> nat \<Rightarrow> 'st \<Rightarrow> 'w \<Rightarrow> ('a FOOOFResult list \<times> 'st \<times> 'w) option" where
  "loaded E f_obj 0 st w = Some ([], st, w)"
| "loaded E f_obj (Suc k) st w =
     (case load E st f_obj w of
        Inl raised \<Rightarrow> None
      | Inr (st', w') \<Rightarrow>
          (case loaded E f_obj k st' w' of
             None \<Rightarrow> None
           | Some (rs, st'', w'') \<Rightarrow> Some (get_results E st' # rs, st'', w'')))"

text \<open>A two-dimensional array with the given number of columns.\<close>

fun is_2d :: "nat \<Rightarrow> 'a ndarray \<Rightarrow> bool" where
  "is_2d n (Arr1 xs) = False"
| "is_2d n (Arr2 ncols rows) = (ncols = n)"

subsection \<open>An instance of the base class\<close>

text \<open>
  A small base class on which the model can be evaluated. The state of the object is
  one integer. A fit raises ValueError on a spectrum with a power that is not positive
  and otherwise keeps the sum of the powers. The file system is one file, a list of
  records still to be read: \<open>Some v\<close> is a complete record and \<open>None\<close> a record that does
  not parse; reading at the end of the file does not parse either.
\<close>

definition example_result :: "int \<Rightarrow> int FOOOFResult" where
  "example_result v =
     \<lparr>background_params = Arr1 [v, 2],
      oscillations_params = Arr2 3 (replicate (nat v) [10, v, 1]),
      r2 = 1, error = v\<rparr>"

definition example_env :: "(int, int, unit, int option list) env" where
  "example_env =
     \<lparr>fit = (\<lambda>st freqs psd freq_range.
               if list_all (\<lambda>p. 0 < p) psd then Inr (sum_list psd) else Inl (ValueError, st)),
      get_results = example_result,
      save = (\<lambda>st f save_results w. Inr (w @ [Some st])),
      load = (\<lambda>st f w. case w of
                [] \<Rightarrow> Inl (JSONDecodeError, st, [])
              | None # rest \<Rightarrow> Inl (JSONDecodeError, st, rest)
              | Some v # rest \<Rightarrow> Inr (v, rest)),
      reset_dat = (\<lambda>st clear_freqs. 0),
      py_open = (\<lambda>path mode w. Inr ((), if mode = ''w'' then [] else w)),
      py_close = (\<lambda>f w. w)\<rparr>"

section \<open>Properties of funcs.py\<close>

subsection \<open>Arithmetic\<close>

lemma np_power_two: "np_power (Fin r) (Fin 2) = Fin (r\<^sup>2)"
  by (auto simp: powr_numeral)

lemma np_power_pos: "0 < xi \<Longrightarrow> np_power (Fin xi) (Fin c) = Fin (xi powr c)"
  by auto

lemma np_add_assoc: "np_add (np_add a b) c = np_add a (np_add b c)"
  by (cases a; cases b; cases c) auto

lemma np_add_zero: "np_add (Fin 0) a = a" "np_add a (Fin 0) = a"
  by (cases a; simp)+

lemma np_log10_nonpositive: "nonpositive v \<Longrightarrow> \<not> is_finite (np_log10 v)"
  by (cases v) auto

lemma np_sub_not_finite: "\<not> is_finite u \<or> \<not> is_finite v \<Longrightarrow> \<not> is_finite (np_sub u v)"
  by (cases u; cases v) (auto simp: np_sub_def)

lemma np_sum_finite: "np_sum (map Fin rs) = Fin (sum_list rs)"
  by (induction rs) (simp_all add: np_sum_def)

lemma foldl_np_add: "foldl np_add a vs = np_add a (np_sum vs)"
  by (induction vs arbitrary: a) (simp_all add: np_sum_def np_add_zero np_add_assoc)

subsection \<open>loglorentzian_function\<close>

text \<open>
  C1, as the specification states it, fails: with offset 10, knee 1, slope 1 and the
  frequency 9 the function returns \<open>log10 10 - log10 (1 + 9) = 0\<close>, and not
  \<open>10 - log10 (1 + 9) = 9\<close>.
\<close>

theorem loglorentzian_offset_counterexample:
  "loglorentzian_function [Fin 9] [Fin 10, Fin 1, Fin 1] = Inr [Fin 0]
   \<and> loglorentzian_function [Fin 9] [Fin 10, Fin 1, Fin 1]
       \<noteq> Inr [Fin (10 - log 10 (1 + 9 powr 1))]"
  by (simp add: np_sub_def)

text \<open>
  C1, amended: for every frequency array \<open>x\<close> and parameter triple (offset, knee, slope)
  the function returns, elementwise, the base-10 logarithm of the offset minus
  \<open>log10 (knee + x ** slope)\<close>, in numpy's arithmetic: the first parameter enters through
  its logarithm. Where the offset, the frequencies and \<open>knee + x ** slope\<close> are positive
  real numbers this is the real number \<open>log10 offset - log10 (knee + x powr slope)\<close>.
\<close>

theorem loglorentzian_function_log_offset:
  "loglorentzian_function x [a, b, c] =
     Inr (map (\<lambda>xi. np_sub (np_log10 a) (np_log10 (np_add b (np_power xi c)))) x)
   \<and> (0 < ra \<and> list_all (\<lambda>xi. 0 < xi \<and> 0 < rb + xi powr rc) xs \<longrightarrow>
        loglorentzian_function (map Fin xs) [Fin ra, Fin rb, Fin rc] =
          Inr (map (\<lambda>xi. Fin (log 10 ra - log 10 (rb + xi powr rc))) xs))"
proof (intro conjI impI)
  show "loglorentzian_function x [a, b, c] =
     Inr (map (\<lambda>xi. np_sub (np_log10 a) (np_log10 (np_add b (np_power xi c)))) x)"
    by simp
next
  assume h: "0 < ra \<and> list_all (\<lambda>xi. 0 < xi \<and> 0 < rb + xi powr rc) xs"
  have "np_sub (np_log10 (Fin ra)) (np_log10 (np_add (Fin rb) (np_power (Fin xi) (Fin rc)))) =
        Fin (log 10 ra - log 10 (rb + xi powr rc))"
    if "xi \<in> set xs" for xi
  proof -
    from h that have pos: "0 < xi" "0 < rb + xi powr rc" "0 < ra"
      by (auto simp: list_all_iff)
    show ?thesis
      using pos
      by (simp only: np_power_pos np_add.simps np_log10.simps np_sub_def np_neg.simps if_True)
         simp
  qed
  then show "loglorentzian_function (map Fin xs) [Fin ra, Fin rb, Fin rc] =
          Inr (map (\<lambda>xi. Fin (log 10 ra - log 10 (rb + xi powr rc))) xs)"
    by (simp add: comp_def)
qed

theorem loglorentzian_function_log_offset_witness:
  "(0::real) < 100 \<and> list_all (\<lambda>xi. 0 < xi \<and> 0 < 0 + xi powr 2) [10::real] \<and>
   loglorentzian_function [Fin 10] [Fin 100, Fin 0, Fin 2] =
     Inr [Fin (log 10 100 - log 10 (0 + 10 powr 2))]"
  using loglorentzian_function_log_offset [of "[Fin 10]" "Fin 100" "Fin 0" "Fin 2" 100 0 2 "[10]"]
  by simp

text \<open>
  C2, as the specification states it, fails: with the first parameter 0 the logarithm
  of zero is taken and the function returns minus infinity; with the frequency -1, knee
  0 and slope 1 the logarithm of -1 is taken and the function returns NaN. Nothing is
  raised.
\<close>

theorem loglorentzian_domain_counterexample:
  "loglorentzian_function [Fin 1] [Fin 0, Fin 1, Fin 1] = Inr [NInf]
   \<and> loglorentzian_function [Fin (- 1)] [Fin 1, Fin 0, Fin 1] = Inr [NaN]"
  by (simp add: np_sub_def)

text \<open>
  C2, amended: for every array \<open>x\<close> of float64 and every triple of float parameters,
  under numpy's default error state, the function returns an array as long as \<open>x\<close>,
  and wherever the logarithm of a non-positive value is taken (the first parameter is
  non-positive, or \<open>knee + x ** slope\<close> is) the element returned is not finite: it is NaN
  or an infinity. No domain error is raised there.
\<close>

theorem loglorentzian_function_returns_non_finite:
  "\<exists>ys. loglorentzian_function x [a, b, c] = Inr ys \<and> length ys = length x \<and>
      (\<forall>i<length x. nonpositive a \<or> nonpositive (np_add b (np_power (x ! i) c)) \<longrightarrow>
           \<not> is_finite (ys ! i))"
proof -
  have "\<not> is_finite (np_sub (np_log10 a) (np_log10 (np_add b (np_power xi c))))"
    if "nonpositive a \<or> nonpositive (np_add b (np_power xi c))" for xi
    using that by (intro np_sub_not_finite) (auto dest: np_log10_nonpositive)
  then show ?thesis
    by simp
qed

theorem loglorentzian_function_returns_non_finite_witness:
  "nonpositive (Fin 0) \<and> nonpositive (np_add (Fin 0) (np_power (Fin (- 1)) (Fin 1))) \<and>
   (\<exists>ys. loglorentzian_function [Fin 1, Fin (- 1)] [Fin 0, Fin 0, Fin 1] = Inr ys \<and> length ys = 2
          \<and> \<not> is_finite (ys ! 0) \<and> \<not> is_finite (ys ! 1))"
proof -
  have hyps: "nonpositive (Fin 0)"
    "nonpositive (np_add (Fin 0) (np_power (Fin (- 1)) (Fin 1)))"
    by simp_all
  from loglorentzian_function_returns_non_finite
         [of "[Fin 1, Fin (- 1)]" "Fin 0" "Fin 0" "Fin 1"]
  obtain ys where ys: "loglorentzian_function [Fin 1, Fin (- 1)] [Fin 0, Fin 0, Fin 1] = Inr ys"
    "length ys = 2"
    and bad: "\<forall>i<2. nonpositive (Fin 0)
               \<or> nonpositive (np_add (Fin 0) (np_power ([Fin 1, Fin (- 1)] ! i) (Fin 1)))
               \<longrightarrow> \<not> is_finite (ys ! i)"
    by auto
  from bad hyps(1) have "\<not> is_finite (ys ! 0)" "\<not> is_finite (ys ! 1)"
    by simp_all
  with ys hyps show ?thesis by blast
qed

text \<open>A parameter list that does not have three elements cannot be unpacked.\<close>

lemma loglorentzian_function_wrong_arity:
  "length params \<noteq> 3 \<Longrightarrow> loglorentzian_function x params = Inl ValueError"
  by (induction x params rule: loglorentzian_function.induct) simp_all

subsection \<open>gaussian_function\<close>

lemma length_flatten_triples: "length (flatten_triples ts) = 3 * length ts"
  by (induction ts rule: flatten_triples.induct) simp_all

lemma flatten_triples_append:
  "flatten_triples (ps @ ts) = flatten_triples ps @ flatten_triples ts"
  by (induction ps rule: flatten_triples.induct) simp_all

lemma py_range3_triples: "py_range3 (3 * n) = map (\<lambda>k. 3 * k) [0..<n]"
proof -
  have "(3 * n + 2) div 3 = n" by arith
  then show ?thesis by (simp only: py_range3_def)
qed

lemma gaussian_loop_triples:
  "gaussian_loop x (flatten_triples ps @ flatten_triples ts)
     (map (\<lambda>k. 3 * k) [length ps..<length ps + length ts]) y =
   Inr (fold (add_term x) ts y)"
proof (induction ts arbitrary: ps y)
  case Nil
  then show ?case by simp
next
  case (Cons t ts)
  obtain ctr amp wid where t: "t = (ctr, amp, wid)" by (cases t)
  let ?params = "flatten_triples ps @ flatten_triples (t # ts)"
  have idx: "[length ps..<length ps + length (t # ts)] =
             length ps # [length (ps @ [t])..<length (ps @ [t]) + length ts]"
    using upt_conv_Cons [of "length ps" "length ps + Suc (length ts)"] by simp
  have get: "?params ! (3 * length ps) = ctr" "?params ! (3 * length ps + 1) = amp"
    "?params ! (3 * length ps + 2) = wid"
    by (simp_all add: t nth_append length_flatten_triples)
  have inb: "3 * length ps + 2 < length ?params"
    by (simp add: t length_flatten_triples)
  have split: "?params = flatten_triples (ps @ [t]) @ flatten_triples ts"
    using flatten_triples_append [of "[t]" ts] by (simp add: flatten_triples_append)
  have "gaussian_loop x ?params (map (\<lambda>k. 3 * k) [length ps..<length ps + length (t # ts)]) y =
        gaussian_loop x ?params
          (map (\<lambda>k. 3 * k) [length (ps @ [t])..<length (ps @ [t]) + length ts]) (add_term x t y)"
    unfolding idx using inb get by (simp add: add_term_def t)
  also have "\<dots> = Inr (fold (add_term x) ts (add_term x t y))"
    unfolding split by (rule Cons.IH)
  finally show ?case by simp
qed

lemma fold_add_term:
  "length y = length x \<Longrightarrow>
   fold (add_term x) ts y =
   map2 (\<lambda>yi xi. foldl np_add yi (map (gaussian_term xi) ts)) y x"
proof (induction ts arbitrary: y)
  case Nil
  then show ?case by (simp add: list_eq_iff_nth_eq)
next
  case (Cons t ts)
  have len: "length (add_term x t y) = length x"
    using Cons.prems by (simp add: add_term_def)
  have "fold (add_term x) (t # ts) y =
        map2 (\<lambda>yi xi. foldl np_add yi (map (gaussian_term xi) ts)) (add_term x t y) x"
    using Cons.IH [OF len] by simp
  also have "\<dots> = map2 (\<lambda>yi xi. foldl np_add yi (map (gaussian_term xi) (t # ts))) y x"
    using Cons.prems by (simp add: add_term_def list_eq_iff_nth_eq)
  finally show ?case .
qed

lemma gaussian_function_triples:
  "gaussian_function x (flatten_triples ts) =
   Inr (map (\<lambda>xi. np_sum (map (gaussian_term xi) ts)) x)"
proof -
  have "gaussian_function x (flatten_triples ts) =
        Inr (fold (add_term x) ts (replicate (length x) (Fin 0)))"
    using gaussian_loop_triples [of x "[]" ts] 
    by (simp add: gaussian_function_def length_flatten_triples py_range3_triples)
  also have "fold (add_term x) ts (replicate (length x) (Fin 0)) =
     map (\<lambda>xi. np_sum (map (gaussian_term xi) ts)) x"
    by (simp add: fold_add_term foldl_np_add np_add_zero list_eq_iff_nth_eq)
  finally show ?thesis .
qed

lemma gaussian_term_finite:
  "wid \<noteq> 0 \<Longrightarrow>
   gaussian_term (Fin xi) (Fin ctr, Fin amp, Fin wid) = Fin (real_gaussian xi (ctr, amp, wid))"
  by (simp only: gaussian_term.simps np_sub_def np_neg.simps np_add.simps np_power_two
       np_mul.simps np_div.simps np_exp.simps real_gaussian.simps) simp

lemma gaussian_terms_finite:
  "list_all (\<lambda>(ctr, amp, wid). wid \<noteq> 0) rts \<Longrightarrow>
   map (gaussian_term (Fin xi)) (map fin_triple rts) = map Fin (map (real_gaussian xi) rts)"
proof (induction rts)
  case Nil
  then show ?case by simp
next
  case (Cons t rts)
  obtain ctr amp wid where t: "t = (ctr, amp, wid)" by (cases t)
  from Cons.prems have nz: "wid \<noteq> 0" and rest: "list_all (\<lambda>(ctr, amp, wid). wid \<noteq> 0) rts"
    by (simp_all add: t)
  have "gaussian_term (Fin xi) (fin_triple t) = Fin (real_gaussian xi t)"
    unfolding t fin_triple.simps by (rule gaussian_term_finite [OF nz])
  with Cons.IH [OF rest] show ?case
    by (simp del: gaussian_term.simps real_gaussian.simps)
qed

text \<open>
  C3: for every frequency array \<open>x\<close> and every parameter list made of consecutive
  triples (center, amplitude, width), \<^verbatim>\<open>gaussian_function\<close> returns, for each element of
  \<open>x\<close>, the sum over the triples of \<open>amplitude * exp (- (x - center)\<^sup>2 / (2 * width\<^sup>2))\<close>,
  in numpy's arithmetic; with no triple it returns zeros, as many as \<open>x\<close> has elements.
  On real numbers with non-zero widths the sum is the sum of the real Gaussians.
\<close>

theorem gaussian_function_sum:
  "gaussian_function x (flatten_triples ts) =
     Inr (map (\<lambda>xi. np_sum (map (gaussian_term xi) ts)) x)
   \<and> gaussian_function x [] = Inr (replicate (length x) (Fin 0))
   \<and> (list_all (\<lambda>(ctr, amp, wid). wid \<noteq> 0) rts \<longrightarrow>
        gaussian_function (map Fin xs) (flatten_triples (map fin_triple rts)) =
          Inr (map (\<lambda>xi. Fin (\<Sum>t\<leftarrow>rts. real_gaussian xi t)) xs))"
proof (intro conjI impI)
  show "gaussian_function x (flatten_triples ts) =
     Inr (map (\<lambda>xi. np_sum (map (gaussian_term xi) ts)) x)"
    by (rule gaussian_function_triples)
next
  show "gaussian_function x [] = Inr (replicate (length x) (Fin 0))"
    by (simp add: gaussian_function_def py_range3_def)
next
  assume nz: "list_all (\<lambda>(ctr, amp, wid). wid \<noteq> 0) rts"
  have "np_sum (map (gaussian_term (Fin xi)) (map fin_triple rts)) =
        Fin (\<Sum>t\<leftarrow>rts. real_gaussian xi t)" for xi
    by (simp only: gaussian_terms_finite [OF nz] np_sum_finite)
  then show "gaussian_function (map Fin xs) (flatten_triples (map fin_triple rts)) =
          Inr (map (\<lambda>xi. Fin (\<Sum>t\<leftarrow>rts. real_gaussian xi t)) xs)"
    by (simp add: gaussian_function_triples comp_def)
qed

theorem gaussian_function_sum_witness:
  "list_all (\<lambda>(ctr, amp, wid). wid \<noteq> 0) [(0::real, 2::real, 1::real), (0, 3, 1)] \<and>
   gaussian_function [Fin 0] [Fin 0, Fin 2, Fin 1, Fin 0, Fin 3, Fin 1] = Inr [Fin 5]"
  using gaussian_function_sum [of "[Fin 0]" "[]" "[(0, 2, 1), (0, 3, 1)]" "[0]"]
  by simp

text \<open>A last group of fewer than three parameters raises IndexError.\<close>

lemma gaussian_function_short_group:
  "gaussian_function [Fin 0] [Fin 0, Fin 2] = Inl IndexError"
  by (simp add: gaussian_function_def py_range3_def)

section \<open>Properties of group.py\<close>

subsection \<open>The loop of fit_group\<close>

lemma fit_loop_results:
  "fit_loop E freqs rng f_obj psds self w = Inr (self', w') \<Longrightarrow>
   group_results self' = group_results self @ fit_results E (fooof self) freqs rng psds
   \<and> length (fit_states E (fooof self) freqs rng psds) = length psds
   \<and> fooof self' = state_after E (fooof self) freqs rng psds"
proof (induction psds arbitrary: self w)
  case Nil
  then show ?case by (simp add: fit_results_def state_after_def)
next
  case (Cons psd psds)
  from Cons.prems obtain st where st: "fit E (fooof self) freqs psd rng = Inr st"
    by (cases "fit E (fooof self) freqs psd rng") auto
  define self2 where
    "self2 = self\<lparr>fooof := st, group_results := group_results self @ [get_results E st]\<rparr>"
  from Cons.prems st obtain w2 where
    "fit_loop E freqs rng f_obj psds self2 w2 = Inr (self', w')"
    by (auto simp: self2_def Let_def split: option.splits sum.splits prod.splits)
  from Cons.IH [OF this] show ?case
    by (simp add: st self2_def fit_results_def state_after_def)
qed

lemma fit_loop_raises:
  "fit_loop E freqs rng f_obj before self w = Inr (self1, w1) \<Longrightarrow>
   fit E (fooof self1) freqs psd rng = Inl (e, st) \<Longrightarrow>
   fit_loop E freqs rng f_obj (before @ psd # rest) self w = Inl (e, self1\<lparr>fooof := st\<rparr>, w1)"
proof (induction before arbitrary: self w)
  case Nil
  then show ?case by simp
next
  case (Cons p before)
  from Cons.prems(1) obtain st0 where st0: "fit E (fooof self) freqs p rng = Inr st0"
    by (cases "fit E (fooof self) freqs p rng") auto
  define self2 where
    "self2 = self\<lparr>fooof := st0, group_results := group_results self @ [get_results E st0]\<rparr>"
  show ?case
  proof (cases f_obj)
    case None
    with Cons.prems(1) st0 have "fit_loop E freqs rng f_obj before self2 w = Inr (self1, w1)"
      by (simp add: self2_def)
    from Cons.IH [OF this Cons.prems(2)] show ?thesis
      using None st0 by (simp add: self2_def)
  next
    case (Some f)
    with Cons.prems(1) st0 obtain w2 where sv: "save E st0 f True w = Inr w2"
      and "fit_loop E freqs rng f_obj before self2 w2 = Inr (self1, w1)"
      by (auto simp: self2_def Let_def split: sum.splits prod.splits)
    from Cons.IH [OF this(2) Cons.prems(2)] show ?thesis
      using Some st0 sv by (simp add: self2_def)
  qed
qed

lemma fit_group_returns:
  "fit_group E self w freqs psds rng sd fn fp = Inr (s1, w1) \<Longrightarrow>
   \<exists>f_obj w0 self1 wl.
     open_if_saving E sd fn fp w = Inr (f_obj, w0)
     \<and> fit_loop E freqs rng f_obj psds (reset_group_results self) w0 = Inr (self1, wl)
     \<and> s1 = self1\<lparr>fooof := reset_dat E (fooof self1) False\<rparr>"
  by (auto simp: fit_group_def Let_def split: sum.splits prod.splits)

lemma fit_group_stored:
  assumes "fit_group E self w freqs psds rng sd fn fp = Inr (s1, w1)"
  shows "group_results s1 = fit_results E (fooof self) freqs rng psds"
    and "length (fit_states E (fooof self) freqs rng psds) = length psds"
    and "fooof s1 = reset_dat E (state_after E (fooof self) freqs rng psds) False"
proof -
  from fit_group_returns [OF assms] obtain f_obj w0 self1 wl where
    loop: "fit_loop E freqs rng f_obj psds (reset_group_results self) w0 = Inr (self1, wl)"
    and s1: "s1 = self1\<lparr>fooof := reset_dat E (fooof self1) False\<rparr>"
    by blast
  from fit_loop_results [OF loop]
  show "group_results s1 = fit_results E (fooof self) freqs rng psds"
    and "length (fit_states E (fooof self) freqs rng psds) = length psds"
    and "fooof s1 = reset_dat E (state_after E (fooof self) freqs rng psds) False"
    by (simp_all add: s1 reset_group_results_def)
qed

lemma fit_loop_not_saving:
  "length (fit_states E (fooof self) freqs rng psds) = length psds \<Longrightarrow>
   \<exists>self1. fit_loop E freqs rng None psds self w = Inr (self1, w)"
proof (induction psds arbitrary: self)
  case Nil
  then show ?case by simp
next
  case (Cons psd psds)
  from Cons.prems obtain st where st: "fit E (fooof self) freqs psd rng = Inr st"
    by (cases "fit E (fooof self) freqs psd rng") auto
  with Cons.prems have "length (fit_states E st freqs rng psds) = length psds"
    by simp
  from Cons.IH [of "self\<lparr>fooof := st, group_results := group_results self @ [get_results E st]\<rparr>"] this
  show ?case by (simp add: st)
qed

lemma fit_group_not_saving:
  "length (fit_states E (fooof self) freqs rng psds) = length psds \<Longrightarrow>
   \<exists>s1. fit_group E self w freqs psds rng False fn fp = Inr (s1, w)"
  using fit_loop_not_saving [of E "reset_group_results self" freqs rng psds w]
  by (auto simp: fit_group_def open_if_saving_def reset_group_results_def)

lemma fit_states_invariant:
  assumes "P st"
    and "\<forall>st psd st'. P st \<and> psd \<in> set psds \<and> fit E st freqs psd rng = Inr st'
            \<longrightarrow> P st' \<and> get_results E st' = R psd"
    and "length (fit_states E st freqs rng psds) = length psds"
  shows "fit_results E st freqs rng psds = map R psds \<and> P (state_after E st freqs rng psds)"
  using assms
proof (induction psds arbitrary: st)
  case Nil
  then show ?case by (simp add: fit_results_def state_after_def)
next
  case (Cons psd psds)
  from Cons.prems(3) obtain st' where st': "fit E st freqs psd rng = Inr st'"
    by (cases "fit E st freqs psd rng") auto
  with Cons.prems(1,2) have P': "P st'" and R: "get_results E st' = R psd"
    by auto
  from Cons.prems(2) have det: "\<forall>st psd st'. P st \<and> psd \<in> set psds \<and> fit E st freqs psd rng = Inr st'
            \<longrightarrow> P st' \<and> get_results E st' = R psd"
    by auto
  from Cons.prems(3) st' have len: "length (fit_states E st' freqs rng psds) = length psds"
    by simp
  from Cons.IH [OF P' det len] show ?case
    by (simp add: st' R fit_results_def state_after_def)
qed

subsection \<open>fit_group: the stored results\<close>

lemma fit_group_raises:
  assumes "fit_group E self w freqs before rng sd fn fp = Inr (sb, wb)"
    and "fit E (state_after E (fooof self) freqs rng before) freqs psd rng = Inl (e, st)"
  shows "\<exists>w'. fit_group E self w freqs (before @ psd # rest) rng sd fn fp =
           Inl (e, \<lparr>fooof = st, group_results = fit_results E (fooof self) freqs rng before\<rparr>, w')"
proof -
  from fit_group_returns [OF assms(1)] obtain f_obj w0 self1 wl where
    op: "open_if_saving E sd fn fp w = Inr (f_obj, w0)"
    and loop: "fit_loop E freqs rng f_obj before (reset_group_results self) w0 = Inr (self1, wl)"
    by blast
  from fit_loop_results [OF loop]
  have res: "group_results self1 = fit_results E (fooof self) freqs rng before"
    and st1: "fooof self1 = state_after E (fooof self) freqs rng before"
    by (simp_all add: reset_group_results_def)
  from assms(2) st1 have "fit E (fooof self1) freqs psd rng = Inl (e, st)"
    by simp
  from fit_loop_raises [OF loop this]
  have "fit_loop E freqs rng f_obj (before @ psd # rest) (reset_group_results self) w0 =
          Inl (e, self1\<lparr>fooof := st\<rparr>, wl)" .
  moreover have "self1\<lparr>fooof := st\<rparr> =
      \<lparr>fooof = st, group_results = fit_results E (fooof self) freqs rng before\<rparr>"
    using res by (cases self1) simp
  ultimately show ?thesis
    by (simp add: fit_group_def op)
qed

text \<open>
  C4: whatever the group object holds before (also results of an earlier call), when
  \<^verbatim>\<open>fit_group\<close> returns, the stored results are the Fit Results of the spectra of this
  batch, one per spectrum and in input order: what was stored before is discarded.
  When the result of a fit is determined by the spectrum (on the states \<open>P\<close> that the
  object runs through, \<open>R psd\<close> is the Fit Result of \<open>psd\<close>), running \<^verbatim>\<open>fit_group\<close> again
  on the same input leaves the same stored results. Without saving, \<^verbatim>\<open>fit_group\<close>
  returns whenever every fit of the batch succeeds.
\<close>

theorem fit_group_rebuilds_results:
  "(\<forall>s1 w1. fit_group E self w freqs psds rng sd fn fp = Inr (s1, w1) \<longrightarrow>
      group_results s1 = fit_results E (fooof self) freqs rng psds
      \<and> length (group_results s1) = length psds
      \<and> (P (fooof self) \<and> (\<forall>st. P st \<longrightarrow> P (reset_dat E st False))
         \<and> (\<forall>st psd st'. P st \<and> psd \<in> set psds \<and> fit E st freqs psd rng = Inr st'
                \<longrightarrow> P st' \<and> get_results E st' = R psd)
         \<longrightarrow> group_results s1 = map R psds
             \<and> (\<forall>s2 w2. fit_group E s1 w1 freqs psds rng sd fn fp = Inr (s2, w2)
                   \<longrightarrow> group_results s2 = group_results s1)))
   \<and> (length (fit_states E (fooof self) freqs rng psds) = length psds \<longrightarrow>
        (\<exists>s1. fit_group E self w freqs psds rng False fn fp = Inr (s1, w)))"
proof (intro conjI allI impI)
  fix s1 w1
  assume run: "fit_group E self w freqs psds rng sd fn fp = Inr (s1, w1)"
  note stored = fit_group_stored [OF run]
  show "group_results s1 = fit_results E (fooof self) freqs rng psds"
    by (rule stored(1))
  show "length (group_results s1) = length psds"
    using stored(1,2) by (simp add: fit_results_def)
  assume det: "P (fooof self) \<and> (\<forall>st. P st \<longrightarrow> P (reset_dat E st False))
         \<and> (\<forall>st psd st'. P st \<and> psd \<in> set psds \<and> fit E st freqs psd rng = Inr st'
                \<longrightarrow> P st' \<and> get_results E st' = R psd)"
  then have P0: "P (fooof self)" and reset: "\<And>st. P st \<Longrightarrow> P (reset_dat E st False)"
    and fits: "\<forall>st psd st'. P st \<and> psd \<in> set psds \<and> fit E st freqs psd rng = Inr st'
                \<longrightarrow> P st' \<and> get_results E st' = R psd"
    by blast+
  from fit_states_invariant [OF P0 fits stored(2)]
  have first: "fit_results E (fooof self) freqs rng psds = map R psds"
    and Plast: "P (state_after E (fooof self) freqs rng psds)"
    by blast+
  show "group_results s1 = map R psds"
    using stored(1) first by simp
  fix s2 w2
  assume again: "fit_group E s1 w1 freqs psds rng sd fn fp = Inr (s2, w2)"
  note stored2 = fit_group_stored [OF again]
  have P1: "P (fooof s1)"
    using stored(3) reset [OF Plast] by simp
  from fit_states_invariant [OF P1 fits stored2(2)]
  have "fit_results E (fooof s1) freqs rng psds = map R psds"
    by blast
  then show "group_results s2 = group_results s1"
    using stored2(1) stored(1) first by simp
next
  assume "length (fit_states E (fooof self) freqs rng psds) = length psds"
  then show "\<exists>s1. fit_group E self w freqs psds rng False fn fp = Inr (s1, w)"
    by (rule fit_group_not_saving)
qed

theorem fit_group_rebuilds_results_witness:
  "fit_group example_env \<lparr>fooof = 7, group_results = [example_result 99]\<rparr> [] [1, 2]
      [[1, 2], [4]] None False ''out'' '''' =
     Inr (\<lparr>fooof = 0, group_results = [example_result 3, example_result 4]\<rparr>, [])
   \<and> length (fit_states example_env 7 [1, 2] None [[1, 2], [4]]) = length [[1, 2], [4 :: int]]
   \<and> group_results \<lparr>fooof = 0 :: int, group_results = [example_result 3, example_result 4]\<rparr> =
       fit_results example_env 7 [1, 2] None [[1, 2], [4]]
   \<and> fit_group example_env \<lparr>fooof = 0, group_results = [example_result 3, example_result 4]\<rparr> []
        [1, 2] [[1, 2], [4]] None False ''out'' '''' =
     Inr (\<lparr>fooof = 0, group_results = [example_result 3, example_result 4]\<rparr>, [])"
proof -
  let ?self = "\<lparr>fooof = 7 :: int, group_results = [example_result 99]\<rparr>"
  let ?s1 = "\<lparr>fooof = 0 :: int, group_results = [example_result 3, example_result 4]\<rparr>"
  have run: "fit_group example_env ?self [] [1, 2] [[1, 2], [4]] None False ''out'' '''' =
               Inr (?s1, [])"
    by (simp add: fit_group_def open_if_saving_def reset_group_results_def example_env_def)
  have again: "fit_group example_env ?s1 [] [1, 2] [[1, 2], [4]] None False ''out'' '''' =
               Inr (?s1, [])"
    by (simp add: fit_group_def open_if_saving_def reset_group_results_def example_env_def)
  have len: "length (fit_states example_env 7 [1, 2] None [[1, 2], [4]]) = length [[1, 2], [4 :: int]]"
    by (simp add: example_env_def)
  have det: "(0 :: int) \<le> fooof ?self \<and> (\<forall>st. (0 :: int) \<le> st \<longrightarrow> 0 \<le> reset_dat example_env st False)
      \<and> (\<forall>st psd st'. 0 \<le> st \<and> psd \<in> set [[1, 2], [4]] \<and> fit example_env st [1, 2] psd None = Inr st'
             \<longrightarrow> 0 \<le> st' \<and> get_results example_env st' = example_result (sum_list psd))"
    by (auto simp: example_env_def)
  from fit_group_rebuilds_results
         [of example_env ?self "[]" "[1, 2]" "[[1, 2], [4]]" None False "''out''" "''''"
             "\<lambda>st. 0 \<le> st" "\<lambda>psd. example_result (sum_list psd)"]
       run det
  have "group_results ?s1 = fit_results example_env 7 [1, 2] None [[1, 2], [4]]"
    by simp
  with run again len show ?thesis by simp
qed

subsection \<open>get_all_data on a scalar field\<close>

lemma getattr_each_scalar:
  "getattr_each rs ''error'' = Inr (map (\<lambda>r. Scalar (error r)) rs)"
  "getattr_each rs ''r2'' = Inr (map (\<lambda>r. Scalar (r2 r)) rs)"
  by (induction rs) (simp_all add: getattr_def)

lemma those_scalars: "those (map scalar_of (map (\<lambda>r. Scalar (f r)) rs)) = Some (map f rs)"
  by (induction rs) simp_all

lemma np_array_scalars: "np_array np (map (\<lambda>r. Scalar (f r)) rs) = Inr (Vec (map f rs))"
  unfolding np_array_def by (simp only: those_scalars option.case)

lemma concatenate_vec: "xs \<noteq> [] \<Longrightarrow> concatenate_if_arrays (Vec xs) = Inr (Arr1 xs)"
  by (cases xs) simp_all

lemma get_all_data_scalar:
  assumes "group_results self \<noteq> []"
  shows "get_all_data np self ''error'' None = Inr (Arr1 (map error (group_results self)))"
    and "get_all_data np self ''r2'' None = Inr (Arr1 (map r2 (group_results self)))"
  using assms
  by (simp_all add: get_all_data_def getattr_each_scalar np_array_scalars concatenate_vec)

text \<open>
  C6, as the specification states it, fails for a batch of no spectrum: \<^verbatim>\<open>fit_group\<close>
  returns with no stored result, and \<^verbatim>\<open>get_all_data\<close> then raises IndexError instead of
  returning a sequence of length 0.
\<close>

theorem get_all_data_error_empty_counterexample:
  "fit_group example_env \<lparr>fooof = 0, group_results = []\<rparr> [] [1, 2] [] None False ''out'' '''' =
     Inr (\<lparr>fooof = 0, group_results = []\<rparr>, [])
   \<and> get_all_data Before_1_24
         \<lparr>fooof = 0 :: int, group_results = [] :: int FOOOFResult list\<rparr> ''error'' None
       = Inl IndexError
   \<and> get_all_data Since_1_24
         \<lparr>fooof = 0 :: int, group_results = [] :: int FOOOFResult list\<rparr> ''error'' None
       = Inl IndexError"
  by (simp add: fit_group_def open_if_saving_def reset_group_results_def example_env_def
        get_all_data_def np_array_def)

text \<open>
  C6, amended: for every batch of at least one spectrum on which \<^verbatim>\<open>fit_group\<close> returns,
  \<^verbatim>\<open>get_all_data\<close> with the name \<open>error\<close> (and likewise \<open>r2\<close>) and no column index returns a
  one-dimensional array with one element per spectrum, whose i-th element is the error
  (r squared) of the Fit Result of the i-th spectrum.
\<close>

theorem get_all_data_error_aligned:
  "fit_group E self w freqs psds rng sd fn fp = Inr (s1, w1) \<and> psds \<noteq> [] \<longrightarrow>
     get_all_data np s1 ''error'' None =
       Inr (Arr1 (map error (fit_results E (fooof self) freqs rng psds)))
     \<and> get_all_data np s1 ''r2'' None =
       Inr (Arr1 (map r2 (fit_results E (fooof self) freqs rng psds)))
     \<and> length (fit_results E (fooof self) freqs rng psds) = length psds"
proof (intro impI, elim conjE)
  assume run: "fit_group E self w freqs psds rng sd fn fp = Inr (s1, w1)" and ne: "psds \<noteq> []"
  note stored = fit_group_stored [OF run]
  have len: "length (fit_results E (fooof self) freqs rng psds) = length psds"
    using stored(2) by (simp add: fit_results_def)
  with ne stored(1) have "group_results s1 \<noteq> []"
    by auto
  from get_all_data_scalar [OF this] stored(1) len
  show "get_all_data np s1 ''error'' None =
       Inr (Arr1 (map error (fit_results E (fooof self) freqs rng psds)))
     \<and> get_all_data np s1 ''r2'' None =
       Inr (Arr1 (map r2 (fit_results E (fooof self) freqs rng psds)))
     \<and> length (fit_results E (fooof self) freqs rng psds) = length psds"
    by simp
qed

theorem get_all_data_error_aligned_witness:
  "fit_group example_env \<lparr>fooof = 7, group_results = [example_result 99]\<rparr> [] [1, 2]
      [[1, 2], [4]] None False ''out'' '''' =
     Inr (\<lparr>fooof = 0, group_results = [example_result 3, example_result 4]\<rparr>, [])
   \<and> [[1, 2], [4 :: int]] \<noteq> []
   \<and> get_all_data Since_1_24
         \<lparr>fooof = 0 :: int, group_results = [example_result 3, example_result 4]\<rparr>
        ''error'' None = Inr (Arr1 [3, 4])
   \<and> get_all_data Since_1_24
         \<lparr>fooof = 0 :: int, group_results = [example_result 3, example_result 4]\<rparr>
        ''r2'' None = Inr (Arr1 [1, 1])"
proof -
  let ?self = "\<lparr>fooof = 7 :: int, group_results = [example_result 99]\<rparr>"
  let ?s1 = "\<lparr>fooof = 0 :: int, group_results = [example_result 3, example_result 4]\<rparr>"
  have run: "fit_group example_env ?self [] [1, 2] [[1, 2], [4]] None False ''out'' '''' =
               Inr (?s1, [])"
    by (simp add: fit_group_def open_if_saving_def reset_group_results_def example_env_def)
  have res: "fit_results example_env 7 [1, 2] None [[1, 2], [4]] = [example_result 3, example_result 4]"
    by (simp add: fit_results_def example_env_def)
  from get_all_data_error_aligned
    [of example_env ?self "[]" "[1, 2]" "[[1, 2], [4]]" None False "''out''" "''''" ?s1 "[]"
        Since_1_24] run
  have "get_all_data Since_1_24 ?s1 ''error'' None = Inr (Arr1 [3, 4])
      \<and> get_all_data Since_1_24 ?s1 ''r2'' None = Inr (Arr1 [1, 1])"
    by (simp add: res example_result_def)
  with run show ?thesis by simp
qed

subsection \<open>fit_group: a fit that raises\<close>

text \<open>
  C8: when the spectra before some spectrum are fit (and saved) without error and the
  fit of that spectrum raises, \<^verbatim>\<open>fit_group\<close> raises the same exception. No later spectrum
  is fit: the object is left in the state in which the failing fit left it, and the
  outcome is the same as for the batch that ends with the failing spectrum.
\<close>

theorem fit_group_halts_on_error:
  "fit_group E self w freqs before rng sd fn fp = Inr (sb, wb)
   \<and> fit E (state_after E (fooof self) freqs rng before) freqs psd rng = Inl (e, st) \<longrightarrow>
     (\<exists>s' w'. fit_group E self w freqs (before @ psd # rest) rng sd fn fp = Inl (e, s', w')
              \<and> fooof s' = st)
     \<and> fit_group E self w freqs (before @ psd # rest) rng sd fn fp =
         fit_group E self w freqs (before @ [psd]) rng sd fn fp"
proof (intro impI, elim conjE)
  assume run: "fit_group E self w freqs before rng sd fn fp = Inr (sb, wb)"
    and bad: "fit E (state_after E (fooof self) freqs rng before) freqs psd rng = Inl (e, st)"
  from fit_group_returns [OF run] obtain f_obj w0 self1 wl where
    op: "open_if_saving E sd fn fp w = Inr (f_obj, w0)"
    and loop: "fit_loop E freqs rng f_obj before (reset_group_results self) w0 = Inr (self1, wl)"
    by blast
  from fit_loop_results [OF loop] bad
  have "fit E (fooof self1) freqs psd rng = Inl (e, st)"
    by (simp add: reset_group_results_def)
  from fit_loop_raises [OF loop this]
  have any: "fit_loop E freqs rng f_obj (before @ psd # tail) (reset_group_results self) w0 =
          Inl (e, self1\<lparr>fooof := st\<rparr>, wl)" for tail .
  have out: "fit_group E self w freqs (before @ psd # tail) rng sd fn fp =
          Inl (e, self1\<lparr>fooof := st\<rparr>, wl)" for tail
    by (simp add: fit_group_def op any)
  show "(\<exists>s' w'. fit_group E self w freqs (before @ psd # rest) rng sd fn fp = Inl (e, s', w')
              \<and> fooof s' = st)
     \<and> fit_group E self w freqs (before @ psd # rest) rng sd fn fp =
         fit_group E self w freqs (before @ [psd]) rng sd fn fp"
    by (simp add: out)
qed

theorem fit_group_halts_on_error_witness:
  "fit_group example_env \<lparr>fooof = 7, group_results = []\<rparr> [] [1, 2] [[1, 2], [4]] None False
      ''out'' '''' =
     Inr (\<lparr>fooof = 0, group_results = [example_result 3, example_result 4]\<rparr>, [])
   \<and> fit example_env (state_after example_env 7 [1, 2] None [[1, 2], [4]]) [1, 2] [5, 0] None =
       Inl (ValueError, 4)
   \<and> (\<exists>s' w'. fit_group example_env \<lparr>fooof = 7, group_results = []\<rparr> [] [1, 2]
                 ([[1, 2], [4]] @ [5, 0] # [[6], [7]]) None False ''out'' '''' = Inl (ValueError, s', w')
              \<and> fooof s' = 4)
   \<and> fit_group example_env \<lparr>fooof = 7, group_results = []\<rparr> [] [1, 2]
        ([[1, 2], [4]] @ [5, 0] # [[6], [7]]) None False ''out'' '''' =
      fit_group example_env \<lparr>fooof = 7, group_results = []\<rparr> [] [1, 2]
        ([[1, 2], [4]] @ [[5, 0]]) None False ''out'' ''''"
proof -
  let ?self = "\<lparr>fooof = 7 :: int, group_results = []\<rparr>"
  let ?s1 = "\<lparr>fooof = 0 :: int, group_results = [example_result 3, example_result 4]\<rparr>"
  have run: "fit_group example_env ?self [] [1, 2] [[1, 2], [4]] None False ''out'' '''' =
               Inr (?s1, [])"
    by (simp add: fit_group_def open_if_saving_def reset_group_results_def example_env_def)
  have bad: "fit example_env (state_after example_env 7 [1, 2] None [[1, 2], [4]]) [1, 2] [5, 0] None =
       Inl (ValueError, 4)"
    by (simp add: state_after_def example_env_def)
  have hyps: "fit_group example_env ?self [] [1, 2] [[1, 2], [4]] None False ''out'' '''' =
               Inr (?s1, [])
     \<and> fit example_env (state_after example_env (fooof ?self) [1, 2] None [[1, 2], [4]])
          [1, 2] [5, 0] None = Inl (ValueError, 4)"
    using run bad by simp
  note halts = fit_group_halts_on_error
    [of example_env ?self "[]" "[1, 2]" "[[1, 2], [4]]" None False "''out''" "''''" ?s1 "[]"
        "[5, 0]" ValueError 4 "[[6], [7]]", THEN mp, OF hyps]
  from run bad halts show ?thesis by blast
qed

text \<open>
  C10: when the fit of the spectrum number \<open>k\<close> (counting from 0) raises, the exception
  leaves \<^verbatim>\<open>fit_group\<close> with the stored results holding the Fit Results of the \<open>k\<close> spectra
  fit before, in input order: the list built so far is not cleared.
\<close>

theorem fit_group_keeps_partial_results:
  "fit_group E self w freqs before rng sd fn fp = Inr (sb, wb)
   \<and> fit E (state_after E (fooof self) freqs rng before) freqs psd rng = Inl (e, st) \<longrightarrow>
     (\<exists>s' w'. fit_group E self w freqs (before @ psd # rest) rng sd fn fp = Inl (e, s', w')
        \<and> group_results s' = fit_results E (fooof self) freqs rng before
        \<and> length (group_results s') = length before)"
proof (intro impI, elim conjE)
  assume run: "fit_group E self w freqs before rng sd fn fp = Inr (sb, wb)"
    and bad: "fit E (state_after E (fooof self) freqs rng before) freqs psd rng = Inl (e, st)"
  from fit_group_raises [OF run bad] obtain w' where
    "fit_group E self w freqs (before @ psd # rest) rng sd fn fp =
       Inl (e, \<lparr>fooof = st, group_results = fit_results E (fooof self) freqs rng before\<rparr>, w')"
    by blast
  moreover have "length (fit_results E (fooof self) freqs rng before) = length before"
    using fit_group_stored(2) [OF run] by (simp add: fit_results_def)
  ultimately show "\<exists>s' w'. fit_group E self w freqs (before @ psd # rest) rng sd fn fp = Inl (e, s', w')
        \<and> group_results s' = fit_results E (fooof self) freqs rng before
        \<and> length (group_results s') = length before"
    by simp
qed

theorem fit_group_keeps_partial_results_witness:
  "fit_group example_env \<lparr>fooof = 7, group_results = [example_result 99]\<rparr> [] [1, 2]
      [[1, 2], [4]] None False ''out'' '''' =
     Inr (\<lparr>fooof = 0, group_results = [example_result 3, example_result 4]\<rparr>, [])
   \<and> fit example_env (state_after example_env 7 [1, 2] None [[1, 2], [4]]) [1, 2] [5, 0] None =
       Inl (ValueError, 4)
   \<and> (\<exists>s' w'. fit_group example_env \<lparr>fooof = 7, group_results = [example_result 99]\<rparr> [] [1, 2]
                 ([[1, 2], [4]] @ [5, 0] # [[6], [7]]) None False ''out'' '''' = Inl (ValueError, s', w')
              \<and> group_results s' = [example_result 3, example_result 4]
              \<and> length (group_results s') = 2)"
proof -
  let ?self = "\<lparr>fooof = 7 :: int, group_results = [example_result 99]\<rparr>"
  let ?s1 = "\<lparr>fooof = 0 :: int, group_results = [example_result 3, example_result 4]\<rparr>"
  have run: "fit_group example_env ?self [] [1, 2] [[1, 2], [4]] None False ''out'' '''' =
               Inr (?s1, [])"
    by (simp add: fit_group_def open_if_saving_def reset_group_results_def example_env_def)
  have bad: "fit example_env (state_after example_env 7 [1, 2] None [[1, 2], [4]]) [1, 2] [5, 0] None =
       Inl (ValueError, 4)"
    by (simp add: state_after_def example_env_def)
  have res: "fit_results example_env 7 [1, 2] None [[1, 2], [4]] = [example_result 3, example_result 4]"
    by (simp add: fit_results_def example_env_def)
  from fit_group_keeps_partial_results
    [of example_env ?self "[]" "[1, 2]" "[[1, 2], [4]]" None False "''out''" "''''" ?s1 "[]"
        "[5, 0]" ValueError 4 "[[6], [7]]"] run bad res
  show ?thesis by auto
qed

subsection \<open>load_group_results\<close>

lemma loaded_length: "loaded E f_obj k st w = Some (rs, st', w') \<Longrightarrow> length rs = k"
  by (induction k arbitrary: st w rs) (auto split: sum.splits option.splits prod.splits)

lemma load_loop_loaded:
  "loaded E f_obj k (fooof self) w = Some (rs, st, w1) \<Longrightarrow>
   load E st f_obj w1 = Inl (JSONDecodeError, st', w2) \<Longrightarrow>
   load_loop E f_obj self w =
     Some (Inr (self\<lparr>fooof := st', group_results := group_results self @ rs\<rparr>, w2))"
proof (induction k arbitrary: self w rs)
  case 0
  then show ?case
    by (subst load_loop.simps) simp
next
  case (Suc k)
  from Suc.prems(1) obtain sa wa rs' where
    first: "load E (fooof self) f_obj w = Inr (sa, wa)"
    and rest: "loaded E f_obj k sa wa = Some (rs', st, w1)"
    and rs: "rs = get_results E sa # rs'"
    by (auto split: sum.splits option.splits prod.splits)
  define self1 where
    "self1 = self\<lparr>fooof := sa, group_results := group_results self @ [get_results E sa]\<rparr>"
  have "loaded E f_obj k (fooof self1) wa = Some (rs', st, w1)"
    using rest by (simp add: self1_def)
  from Suc.IH [OF this Suc.prems(2)]
  have "load_loop E f_obj self1 wa =
     Some (Inr (self1\<lparr>fooof := st', group_results := group_results self1 @ rs'\<rparr>, w2))" .
  then show ?case
    by (subst load_loop.simps) (simp add: first self1_def rs)
qed

text \<open>
  C5: when the file opens, its next \<open>k\<close> records load without error and the record after
  them does not parse (\<open>load\<close> raises JSONDecodeError there: an incomplete or corrupt
  record, or the end of the file), \<^verbatim>\<open>load_group_results\<close> returns: no exception leaves it,
  and the stored results are the Fit Results of the \<open>k\<close> complete records in file order,
  whatever was stored before.
\<close>

theorem load_group_results_stops_at_parse_failure:
  "py_open E (os_path_join file_path (file_name @ ''.json'')) ''r'' w = Inr (f_obj, w0)
   \<and> loaded E f_obj k (fooof self) w0 = Some (rs, st, w1)
   \<and> load E st f_obj w1 = Inl (JSONDecodeError, st', w2) \<longrightarrow>
     load_group_results E self w file_name file_path =
       Some (Inr (\<lparr>fooof = reset_dat E st' False, group_results = rs\<rparr>, py_close E f_obj w2))
     \<and> length rs = k"
proof (intro impI, elim conjE)
  assume op: "py_open E (os_path_join file_path (file_name @ ''.json'')) ''r'' w = Inr (f_obj, w0)"
    and good: "loaded E f_obj k (fooof self) w0 = Some (rs, st, w1)"
    and bad: "load E st f_obj w1 = Inl (JSONDecodeError, st', w2)"
  have "loaded E f_obj k (fooof (reset_group_results self)) w0 = Some (rs, st, w1)"
    using good by (simp add: reset_group_results_def)
  from load_loop_loaded [OF this bad]
  have "load_loop E f_obj (reset_group_results self) w0 =
          Some (Inr (self\<lparr>fooof := st', group_results := rs\<rparr>, w2))"
    by (simp add: reset_group_results_def)
  then have "load_group_results E self w file_name file_path =
       Some (Inr (\<lparr>fooof = reset_dat E st' False, group_results = rs\<rparr>, py_close E f_obj w2))"
    by (cases self) (simp add: load_group_results_def op)
  with loaded_length [OF good] show "load_group_results E self w file_name file_path =
       Some (Inr (\<lparr>fooof = reset_dat E st' False, group_results = rs\<rparr>, py_close E f_obj w2))
     \<and> length rs = k"
    by simp
qed

theorem load_group_results_stops_at_parse_failure_witness:
  "py_open example_env (os_path_join ''dir'' (''out'' @ ''.json'')) ''r'' [Some 4, Some 9, None, Some 5]
      = Inr ((), [Some 4, Some 9, None, Some 5])
   \<and> loaded example_env () 2 (fooof \<lparr>fooof = 7 :: int, group_results = [example_result 99]\<rparr>)
        [Some 4, Some 9, None, Some 5]
      = Some ([example_result 4, example_result 9], 9, [None, Some 5])
   \<and> load example_env 9 () [None, Some 5] = Inl (JSONDecodeError, 9, [Some 5])
   \<and> load_group_results example_env \<lparr>fooof = 7, group_results = [example_result 99]\<rparr>
        [Some 4, Some 9, None, Some 5] ''out'' ''dir''
      = Some (Inr (\<lparr>fooof = 0, group_results = [example_result 4, example_result 9]\<rparr>, [Some 5]))"
proof -
  let ?self = "\<lparr>fooof = 7 :: int, group_results = [example_result 99]\<rparr>"
  have hyps: "py_open example_env (os_path_join ''dir'' (''out'' @ ''.json'')) ''r''
        [Some 4, Some 9, None, Some 5] = Inr ((), [Some 4, Some 9, None, Some 5])
   \<and> loaded example_env () 2 (fooof ?self) [Some 4, Some 9, None, Some 5]
      = Some ([example_result 4, example_result 9], 9, [None, Some 5])
   \<and> load example_env 9 () [None, Some 5] = Inl (JSONDecodeError, 9, [Some 5])"
    by (simp add: example_env_def numeral_2_eq_2)
  note stops = load_group_results_stops_at_parse_failure
    [of example_env "''dir''" "''out''" "[Some 4, Some 9, None, Some 5]" "()"
        "[Some 4, Some 9, None, Some 5]" 2 ?self "[example_result 4, example_result 9]" 9
        "[None, Some 5]" 9 "[Some 5]", THEN mp, OF hyps]
  have "reset_dat example_env 9 False = 0" "py_close example_env () [Some 5] = [Some 5]"
    by (simp_all add: example_env_def)
  with stops hyps show ?thesis by simp
qed

text \<open>
  Only JSONDecodeError is caught: any other exception that \<open>load\<close> raises leaves
  \<^verbatim>\<open>load_group_results\<close>, with the results of the records loaded so far stored.
\<close>

lemma load_loop_other_exception:
  "loaded E f_obj k (fooof self) w = Some (rs, st, w1) \<Longrightarrow>
   load E st f_obj w1 = Inl (e, st', w2) \<Longrightarrow> e \<noteq> JSONDecodeError \<Longrightarrow>
   load_loop E f_obj self w =
     Some (Inl (e, self\<lparr>fooof := st', group_results := group_results self @ rs\<rparr>, w2))"
proof (induction k arbitrary: self w rs)
  case 0
  then show ?case
    by (subst load_loop.simps) simp
next
  case (Suc k)
  from Suc.prems(1) obtain sa wa rs' where
    first: "load E (fooof self) f_obj w = Inr (sa, wa)"
    and rest: "loaded E f_obj k sa wa = Some (rs', st, w1)"
    and rs: "rs = get_results E sa # rs'"
    by (auto split: sum.splits option.splits prod.splits)
  define self1 where
    "self1 = self\<lparr>fooof := sa, group_results := group_results self @ [get_results E sa]\<rparr>"
  have "loaded E f_obj k (fooof self1) wa = Some (rs', st, w1)"
    using rest by (simp add: self1_def)
  from Suc.IH [OF this Suc.prems(2,3)]
  have "load_loop E f_obj self1 wa =
     Some (Inl (e, self1\<lparr>fooof := st', group_results := group_results self1 @ rs'\<rparr>, w2))" .
  then show ?case
    by (subst load_loop.simps) (simp add: first self1_def rs)
qed

lemma load_group_results_other_exception:
  assumes "py_open E (os_path_join file_path (file_name @ ''.json'')) ''r'' w = Inr (f_obj, w0)"
    and "loaded E f_obj k (fooof self) w0 = Some (rs, st, w1)"
    and "load E st f_obj w1 = Inl (e, st', w2)" and "e \<noteq> JSONDecodeError"
  shows "load_group_results E self w file_name file_path =
           Some (Inl (e, \<lparr>fooof = st', group_results = rs\<rparr>, py_close E f_obj w2))"
proof -
  have "loaded E f_obj k (fooof (reset_group_results self)) w0 = Some (rs, st, w1)"
    using assms(2) by (simp add: reset_group_results_def)
  from load_loop_other_exception [OF this assms(3,4)]
  have "load_loop E f_obj (reset_group_results self) w0 =
          Some (Inl (e, self\<lparr>fooof := st', group_results := rs\<rparr>, w2))"
    by (simp add: reset_group_results_def)
  then show ?thesis
    by (cases self) (simp add: load_group_results_def assms(1))
qed

subsection \<open>get_all_data on the peak parameters\<close>

lemma getattr_each_peaks:
  "getattr_each rs ''oscillations_params'' = Inr (map (\<lambda>r. Array (oscillations_params r)) rs)"
  by (induction rs) (simp_all add: getattr_def)

lemma those_arrays: "those (map array_of (map (\<lambda>r. Array (f r)) rs)) = Some (map f rs)"
  by (induction rs) simp_all

lemma those_not_scalars: "rs \<noteq> [] \<Longrightarrow> those (map scalar_of (map (\<lambda>r. Array (f r)) rs)) = None"
  by (cases rs) simp_all

lemma np_array_of_arrays:
  "rs \<noteq> [] \<Longrightarrow>
   np_array np (map (\<lambda>r. Array (f r)) rs) =
     (if np_array_accepts np (map f rs) then Inr (Arrs (map f rs)) else Inl ValueError)"
proof -
  assume ne: "rs \<noteq> []"
  show ?thesis
    unfolding np_array_def
    by (simp only: those_not_scalars [OF ne] those_arrays option.case)
qed

lemma shape_is_2d: "is_2d n arr \<Longrightarrow> is_2d n other \<Longrightarrow>
  (shape other = shape arr) = (hd (shape other) = hd (shape arr))"
  by (cases arr; cases other) simp_all

text \<open>Arrays of the same number of columns: what np.array accepts.\<close>

lemma np_array_accepts_2d:
  assumes "list_all (is_2d n) arrs"
  shows "np_array_accepts np arrs =
           (np = Before_1_24 \<or> list_all (\<lambda>other. shape other = shape (hd arrs)) arrs)"
proof (cases arrs)
  case Nil
  then show ?thesis by simp
next
  case (Cons arr rest)
  with assms have a: "is_2d n arr" and r: "list_all (is_2d n) rest" by simp_all
  have "list_all (\<lambda>other. shape other = shape arr) rest =
        list_all (\<lambda>other. hd (shape other) = hd (shape arr)) rest"
    using r shape_is_2d [OF a] by (auto simp: list_all_iff)
  then show ?thesis using Cons by auto
qed

lemma as_rows_2d: "is_2d n arr \<Longrightarrow> as_rows arr = arr"
  by (cases arr) simp_all

lemma np_concatenate_2d:
  "arrs \<noteq> [] \<Longrightarrow> list_all (is_2d n) arrs \<Longrightarrow>
   np_concatenate arrs = Inr (Arr2 n (concat (map rows_of arrs)))"
proof (cases arrs)
  case Nil
  assume "arrs \<noteq> []"
  with Nil show ?thesis by simp
next
  case (Cons arr rest)
  assume "list_all (is_2d n) arrs"
  with Cons have a: "is_2d n arr" and r: "list_all (is_2d n) rest" by simp_all
  from a obtain rows where arr: "arr = Arr2 n rows" by (cases arr) simp_all
  have "list_all (\<lambda>other. tl (shape other) = [n]) rest"
    using r
  proof (induction rest)
    case Nil
    then show ?case by simp
  next
    case (Cons other rest)
    then show ?case by (cases other) simp_all
  qed
  then show ?thesis using Cons arr by simp
qed

lemma concatenate_arrays_2d:
  "arrs \<noteq> [] \<Longrightarrow> list_all (is_2d n) arrs \<Longrightarrow>
   concatenate_if_arrays (Arrs arrs) = Inr (Arr2 n (concat (map rows_of arrs)))"
proof -
  assume ne: "arrs \<noteq> []" and all: "list_all (is_2d n) arrs"
  have same: "map as_rows arrs = arrs"
    using all by (induction arrs) (auto simp: as_rows_2d)
  from ne obtain arr rest where "arrs = arr # rest" by (cases arrs) auto
  then have "concatenate_if_arrays (Arrs arrs) = np_concatenate (map as_rows arrs)"
    by simp
  with same np_concatenate_2d [OF ne all] show ?thesis by simp
qed

text \<open>
  What \<^verbatim>\<open>get_all_data\<close> returns on the peak parameters, for stored results whose peak
  arrays have \<open>n\<close> columns: before numpy 1.24 always, and since numpy 1.24 when the peak
  arrays have the same number of rows, the rows of all the peak arrays in stored order;
  since numpy 1.24, when the numbers of rows differ, ValueError.
\<close>

lemma get_all_data_peaks:
  assumes ne: "group_results self \<noteq> []"
    and all: "list_all (\<lambda>r. is_2d n (oscillations_params r)) (group_results self)"
  shows "get_all_data np self ''oscillations_params'' None =
     (if np = Before_1_24
         \<or> list_all (\<lambda>r. shape (oscillations_params r) =
                          shape (oscillations_params (hd (group_results self))))
              (group_results self)
      then Inr (Arr2 n (concat (map (\<lambda>r. rows_of (oscillations_params r)) (group_results self))))
      else Inl ValueError)"
proof -
  let ?arrs = "map oscillations_params (group_results self)"
  have ne': "?arrs \<noteq> []"
    using ne by simp
  have all': "list_all (is_2d n) ?arrs"
    using all by (simp add: list_all_iff)
  have hd': "hd ?arrs = oscillations_params (hd (group_results self))"
    using ne by (simp add: hd_map)
  have acc: "np_array_accepts np ?arrs =
      (np = Before_1_24
         \<or> list_all (\<lambda>r. shape (oscillations_params r) =
                          shape (oscillations_params (hd (group_results self))))
              (group_results self))"
    unfolding np_array_accepts_2d [OF all'] hd' by (simp add: list_all_iff)
  show ?thesis
    unfolding get_all_data_def getattr_each_peaks
    by (simp add: np_array_of_arrays [OF ne] acc concatenate_arrays_2d [OF ne' all'] comp_def)
qed

text \<open>
  C7: since numpy 1.24 the code does not do what the claim says for peak lists of
  different lengths. For three stored results whose peak arrays have 2, 0 and 1 rows,
  \<^verbatim>\<open>np.array\<close> raises ValueError (line 120 of \<^verbatim>\<open>group.py\<close>), where the claim, and the
  comment of the code on lines 122 to 124, say that the arrays are concatenated into
  one two-dimensional array. Before numpy 1.24 the same call returns the three rows in
  stored order, with their three columns; since numpy 1.24 peak arrays of the same
  number of rows are still concatenated.
\<close>

theorem get_all_data_peaks_different_row_counts:
  "get_all_data Since_1_24
     \<lparr>fooof = 0 :: int, group_results = [example_result 2, example_result 0, example_result 1]\<rparr>
     ''oscillations_params'' None = Inl ValueError
   \<and> get_all_data Before_1_24
     \<lparr>fooof = 0 :: int, group_results = [example_result 2, example_result 0, example_result 1]\<rparr>
     ''oscillations_params'' None = Inr (Arr2 3 [[10, 2, 1], [10, 2, 1], [10, 1, 1]])
   \<and> get_all_data Since_1_24
     \<lparr>fooof = 0 :: int, group_results = [example_result 2, example_result 2]\<rparr>
     ''oscillations_params'' None = Inr (Arr2 3 [[10, 2, 1], [10, 2, 1], [10, 2, 1], [10, 2, 1]])"
  by (simp add: get_all_data_def getattr_def np_array_def example_result_def numeral_2_eq_2)

subsection \<open>get_all_data on an empty group\<close>

text \<open>
  C9: with no stored result, \<^verbatim>\<open>get_all_data\<close> raises IndexError, for every field name and
  every column index: \<^verbatim>\<open>out[0]\<close> is evaluated on an empty array.
\<close>

theorem get_all_data_empty_raises:
  "get_all_data np (self\<lparr>group_results := []\<rparr>) name ind = Inl IndexError"
  by (simp add: get_all_data_def np_array_def)

end
